theory Spec2Isabelle
  imports Main "HOL-Library.Multiset" "HOL-Library.Char_ord" "HOL-Library.List_Lexorder"
    "HOL-Library.Product_Lexorder"
begin

section \<open>Python exceptions\<close>

text \<open>
  Every exception the modelled code raises is a value. The two extractor error classes
  are the ones \<^verbatim>\<open>adapters/base.py\<close> defines; the others are Python built-ins, with the
  message where a claim reads it.
\<close>

datatype error =
    StopIteration
  | IndexError
  | KeyError
  | TypeError
  | UnboundLocalError
  | AttributeError
  | RuntimeError string
  | NotImplementedError string
  | ImageExtractorError
  | LabelsExtractorError

section \<open>SegmentationCountNumObjects (feature\_extractors/segmentation\_extractors.py)\<close>

text \<open>
  \<^verbatim>\<open>data.batch_onehot_contours\<close> is a list of images, each a list of classes, each a list
  of contours. The histogram is the Python list \<^verbatim>\<open>[0] * 51\<close>.
\<close>

definition SegmentationCountNumObjects_init :: "int list" where
  "SegmentationCountNumObjects_init = replicate 51 0"

text \<open>The inner loop: \<^verbatim>\<open>num_objects_per_image += len(cls_contours)\<close>, from 0.\<close>

fun num_objects_per_image :: "'c list list \<Rightarrow> nat" where
  "num_objects_per_image [] = 0"
| "num_objects_per_image (cls_contours # rest) = length cls_contours + num_objects_per_image rest"

text \<open>
  \<^verbatim>\<open>self._hist[num_objects_per_image] += 1\<close> reads the list at the index first: an index
  past the end raises IndexError and leaves the list as the earlier images of the batch
  made it. The index is a sum of lengths, never negative.
\<close>

fun SegmentationCountNumObjects_execute :: "'c list list list \<Rightarrow> int list \<Rightarrow> int list \<times> error option" where
  "SegmentationCountNumObjects_execute [] hist = (hist, None)"
| "SegmentationCountNumObjects_execute (onehot_contours # rest) hist =
     (let n = num_objects_per_image onehot_contours in
      if n < length hist
      then SegmentationCountNumObjects_execute rest (hist[n := hist ! n + 1])
      else (hist, Some IndexError))"

section \<open>AnalysisManager (manager.py)\<close>

datatype split = Train | Val

text \<open>
  What a run does to its collaborators, in order: a \<^verbatim>\<open>next\<close> on an iterator, a direct
  \<^verbatim>\<open>extractor.execute\<close> call, a task handed to the thread pool, a
  \<^verbatim>\<open>extractor.process\<close> call. The number is the extractor's position in its list.
\<close>

datatype event = Next split | Execute split nat | Submit split nat | Process split nat

text \<open>
  The fields \<^verbatim>\<open>__init__\<close> sets, with the iterators as the lists of raw batches they
  still hold (\<^verbatim>\<open>next\<close> on the empty list raises StopIteration). \<^verbatim>\<open>_length_data\<close> is
  read by \<^verbatim>\<open>execute\<close> and is a field here. An extractor is its state \<^typ>\<open>'s\<close>.
\<close>

record ('r, 's) AnalysisManager =
  train_only :: bool
  train_iter :: "'r list"
  val_iter :: "'r list"
  train_extractors :: "'s list"
  val_extractors :: "'s list"
  length_data :: nat
  trace :: "event list"

text \<open>
  The code the manager calls that is not among the sources: the task's preprocessor and
  the extractors' \<^verbatim>\<open>execute\<close> and \<^verbatim>\<open>process\<close>. Each may raise; an extractor method
  that raises leaves the state it had reached.
\<close>

record ('r, 'b, 's) collaborators =
  preprocess :: "'r \<Rightarrow> error + 'b"
  extractor_execute :: "'b \<Rightarrow> 's \<Rightarrow> 's \<times> error option"
  extractor_process :: "'s \<Rightarrow> 's \<times> error option"

text \<open>The module-level flag, as shipped.\<close>

definition debug_mode :: bool where
  "debug_mode = True"

text \<open>
  The manager as \<^verbatim>\<open>__init__\<close> and \<^verbatim>\<open>build\<close> leave it: \<^verbatim>\<open>_train_only\<close> is whether no val
  iterator was given, and the two lists hold one extractor per configured feature.
\<close>

definition AnalysisManager_init :: "'r list \<Rightarrow> 'r list option \<Rightarrow> 's list \<Rightarrow> 's list \<Rightarrow> nat \<Rightarrow> ('r, 's) AnalysisManager" where
  "AnalysisManager_init train_data_iterator val_data_iterator t_extractors v_extractors n =
     \<lparr> train_only = (val_data_iterator = None),
       train_iter = train_data_iterator,
       val_iter = (case val_data_iterator of None \<Rightarrow> [] | Some it \<Rightarrow> it),
       train_extractors = t_extractors,
       val_extractors = v_extractors,
       length_data = n,
       trace = [] \<rparr>"

text \<open>\<^verbatim>\<open>_get_batch\<close>: \<^verbatim>\<open>next(dataloader)\<close>, then the preprocessor.\<close>

definition get_batch :: "('r, 'b, 's) collaborators \<Rightarrow> split \<Rightarrow> ('r, 's) AnalysisManager
    \<Rightarrow> (error + 'b) \<times> ('r, 's) AnalysisManager" where
  "get_batch c sp m =
     (let m1 = m\<lparr>trace := trace m @ [Next sp]\<rparr> in
      case sp of
        Train \<Rightarrow> (case train_iter m of
                    [] \<Rightarrow> (Inl StopIteration, m1)
                  | r # rs \<Rightarrow> (preprocess c r, m1\<lparr>train_iter := rs\<rparr>))
      | Val \<Rightarrow> (case val_iter m of
                  [] \<Rightarrow> (Inl StopIteration, m1)
                | r # rs \<Rightarrow> (preprocess c r, m1\<lparr>val_iter := rs\<rparr>)))"

text \<open>
  The debug branch of \<^verbatim>\<open>for extractor in extractors: extractor.execute(batch_data)\<close>:
  one call per extractor, in list order, stopping at the first that raises.
\<close>

fun execute_each :: "('b \<Rightarrow> 's \<Rightarrow> 's \<times> error option) \<Rightarrow> split \<Rightarrow> 'b \<Rightarrow> nat \<Rightarrow> 's list
    \<Rightarrow> ('s list \<times> event list) \<times> error option" where
  "execute_each ex sp b i [] = (([], []), None)"
| "execute_each ex sp b i (s # ss) =
     (case ex b s of
        (s', Some e) \<Rightarrow> ((s' # ss, [Execute sp i]), Some e)
      | (s', None) \<Rightarrow>
          (case execute_each ex sp b (Suc i) ss of
             ((ss', evs), r) \<Rightarrow> ((s' # ss', Execute sp i # evs), r)))"

text \<open>
  The thread-pool branch. The list comprehension
  \<^verbatim>\<open>[self._threads.submit(extractor.execute, batch_data) for extractor in extractors]\<close>
  hands one task per extractor to the pool; a task that raises keeps its exception in its
  future, which nothing reads. The model runs every task to its end when it is
  submitted, in submission order.
\<close>

definition submit_each :: "('b \<Rightarrow> 's \<Rightarrow> 's \<times> error option) \<Rightarrow> split \<Rightarrow> 'b \<Rightarrow> 's list
    \<Rightarrow> 's list \<times> event list" where
  "submit_each ex sp b ss = (map (\<lambda>s. fst (ex b s)) ss, map (Submit sp) [0..<length ss])"

text \<open>
  The comprehension sits inside \<^verbatim>\<open>for extractor in extractors\<close>, so it runs once per
  extractor of the list: \<^term>\<open>k\<close> counts the rounds left.
\<close>

fun submit_rounds :: "('b \<Rightarrow> 's \<Rightarrow> 's \<times> error option) \<Rightarrow> split \<Rightarrow> 'b \<Rightarrow> nat \<Rightarrow> 's list \<times> event list
    \<Rightarrow> 's list \<times> event list" where
  "submit_rounds ex sp b 0 acc = acc"
| "submit_rounds ex sp b (Suc k) (ss, evs) =
     (case submit_each ex sp b ss of
        (ss', evs') \<Rightarrow> submit_rounds ex sp b k (ss', evs @ evs'))"

text \<open>
  The train half of one iteration. \<^term>\<open>futures\<close> is the local variable of that name:
  \<^term>\<open>None\<close> while unbound, else the number of futures in the list. The train loop
  assigns it (\<^verbatim>\<open>futures = [...]\<close>) in every round, so it is bound after the loop when
  the list of extractors is not empty.
\<close>

definition train_loop :: "bool \<Rightarrow> ('r, 'b, 's) collaborators \<Rightarrow> 'b
    \<Rightarrow> ('r, 's) AnalysisManager \<times> nat option
    \<Rightarrow> (('r, 's) AnalysisManager \<times> nat option) \<times> error option" where
  "train_loop dbg c batch_data mf =
     (case mf of (m, futures) \<Rightarrow>
        if \<not> dbg then
          (case submit_rounds (extractor_execute c) Train batch_data
                  (length (train_extractors m)) (train_extractors m, []) of
             (ss, evs) \<Rightarrow>
               ((m\<lparr>train_extractors := ss, trace := trace m @ evs\<rparr>,
                 if train_extractors m = [] then futures else Some (length (train_extractors m))),
                None))
        else
          (case execute_each (extractor_execute c) Train batch_data 0 (train_extractors m) of
             ((ss, evs), r) \<Rightarrow>
               ((m\<lparr>train_extractors := ss, trace := trace m @ evs\<rparr>, futures), r)))"

text \<open>
  The val loop. \<^verbatim>\<open>futures += [...]\<close> reads \<^verbatim>\<open>futures\<close> before it submits anything, so
  it raises UnboundLocalError when the variable is unbound.
\<close>

definition val_loop :: "bool \<Rightarrow> ('r, 'b, 's) collaborators \<Rightarrow> 'b
    \<Rightarrow> ('r, 's) AnalysisManager \<times> nat option
    \<Rightarrow> (('r, 's) AnalysisManager \<times> nat option) \<times> error option" where
  "val_loop dbg c batch_data mf =
     (case mf of (m, futures) \<Rightarrow>
        if \<not> dbg then
          (if val_extractors m = [] then ((m, futures), None)
           else case futures of
             None \<Rightarrow> ((m, futures), Some UnboundLocalError)
           | Some f \<Rightarrow>
               (case submit_rounds (extractor_execute c) Val batch_data
                       (length (val_extractors m)) (val_extractors m, []) of
                  (ss, evs) \<Rightarrow>
                    ((m\<lparr>val_extractors := ss, trace := trace m @ evs\<rparr>,
                      Some (f + length (val_extractors m) * length (val_extractors m))),
                     None)))
        else
          (case execute_each (extractor_execute c) Val batch_data 0 (val_extractors m) of
             ((ss, evs), r) \<Rightarrow>
               ((m\<lparr>val_extractors := ss, trace := trace m @ evs\<rparr>, futures), r)))"

text \<open>
  \<^verbatim>\<open>if not self._train_only: try: ... except StopIteration: self._train_only = True
  else: ...\<close>. The \<^verbatim>\<open>except\<close> catches a StopIteration of \<^verbatim>\<open>_get_batch\<close> wherever it
  comes from; any other exception leaves the method.
\<close>

definition val_part :: "bool \<Rightarrow> ('r, 'b, 's) collaborators
    \<Rightarrow> ('r, 's) AnalysisManager \<times> nat option
    \<Rightarrow> (('r, 's) AnalysisManager \<times> nat option) \<times> error option" where
  "val_part dbg c mf =
     (case mf of (m, futures) \<Rightarrow>
        if \<not> train_only m then
          (case get_batch c Val m of
             (Inl StopIteration, m1) \<Rightarrow> ((m1\<lparr>train_only := True\<rparr>, futures), None)
           | (Inl e, m1) \<Rightarrow> ((m1, futures), Some e)
           | (Inr batch_data, m1) \<Rightarrow> val_loop dbg c batch_data (m1, futures))
        else ((m, futures), None))"

text \<open>
  One pass of the body of \<^verbatim>\<open>for train_batch in tqdm.trange(self._length_data)\<close>. The
  \<^verbatim>\<open>continue\<close> comes first; the train batch is pulled outside any \<^verbatim>\<open>try\<close>; the last
  statement, \<^verbatim>\<open>concurrent.futures.wait(futures, ...)\<close>, reads \<^verbatim>\<open>futures\<close>.
\<close>

definition iteration :: "bool \<Rightarrow> ('r, 'b, 's) collaborators \<Rightarrow> nat
    \<Rightarrow> ('r, 's) AnalysisManager \<times> nat option
    \<Rightarrow> (('r, 's) AnalysisManager \<times> nat option) \<times> error option" where
  "iteration dbg c train_batch mf =
     (case mf of (m, futures) \<Rightarrow>
        if train_batch > 3 \<and> dbg then ((m, futures), None)
        else
          (case get_batch c Train m of
             (Inl e, m1) \<Rightarrow> ((m1, futures), Some e)
           | (Inr batch_data, m1) \<Rightarrow>
               (case train_loop dbg c batch_data (m1, futures) of
                  (mf2, Some e) \<Rightarrow> (mf2, Some e)
                | (mf2, None) \<Rightarrow>
                    (case val_part dbg c mf2 of
                       (mf3, Some e) \<Rightarrow> (mf3, Some e)
                     | (mf3, None) \<Rightarrow>
                         if \<not> dbg \<and> snd mf3 = None then (mf3, Some UnboundLocalError)
                         else (mf3, None)))))"

fun execute_loop :: "bool \<Rightarrow> ('r, 'b, 's) collaborators \<Rightarrow> nat list
    \<Rightarrow> ('r, 's) AnalysisManager \<times> nat option
    \<Rightarrow> (('r, 's) AnalysisManager \<times> nat option) \<times> error option" where
  "execute_loop dbg c [] mf = (mf, None)"
| "execute_loop dbg c (train_batch # rest) mf =
     (case iteration dbg c train_batch mf of
        (mf', Some e) \<Rightarrow> (mf', Some e)
      | (mf', None) \<Rightarrow> execute_loop dbg c rest mf')"

text \<open>\<^verbatim>\<open>execute\<close>: the loop over \<^verbatim>\<open>range(self._length_data)\<close>, \<^verbatim>\<open>futures\<close> unbound at first.\<close>

definition execute :: "bool \<Rightarrow> ('r, 'b, 's) collaborators \<Rightarrow> ('r, 's) AnalysisManager
    \<Rightarrow> ('r, 's) AnalysisManager \<times> error option" where
  "execute dbg c m =
     (case execute_loop dbg c [0..<length_data m] (m, None) of
        ((m', futures), r) \<Rightarrow> (m', r))"




text \<open>How often a trace pulls from a split's iterator.\<close>

definition pulls :: "split \<Rightarrow> event list \<Rightarrow> nat" where
  "pulls sp tr = length (filter (\<lambda>ev. ev = Next sp) tr)"





text \<open>
  A stand-in for the absent collaborators, for concrete runs: the preprocessor hands the
  raw batch on, an extractor counts the images it has seen, \<^verbatim>\<open>process\<close> leaves it alone.
\<close>

definition counting_collaborators :: "(nat list, nat list, nat) collaborators" where
  "counting_collaborators =
     \<lparr> preprocess = Inr,
       extractor_execute = (\<lambda>batch_data seen. (seen + length batch_data, None)),
       extractor_process = (\<lambda>seen. (seen, None)) \<rparr>"

text \<open>
  A concrete manager: six train batches, two val batches, two counting extractors per
  split, a configured length of ten.
\<close>

definition example_manager :: "(nat list, nat) AnalysisManager" where
  "example_manager =
     AnalysisManager_init [[1], [2], [3], [4], [5], [6]] (Some [[7], [8]]) [0, 0] [0, 0] 10"


text \<open>
  Two more concrete managers, without a val iterator: one train batch for two counting
  extractors, and five train batches for one.
\<close>

definition one_batch_manager :: "(nat list, nat) AnalysisManager" where
  "one_batch_manager = AnalysisManager_init [[1]] None [0, 0] [0, 0] 1"

definition five_batch_manager :: "(nat list, nat) AnalysisManager" where
  "five_batch_manager = AnalysisManager_init [[1], [2], [3], [4], [5]] None [0] [0] 5"

section \<open>DatasetAdapter (batch\_processors/adapters/base.py)\<close>

text \<open>
  A raw batch, as far as the adapter looks into it: the three array-like classes it
  tests for, tuples, lists and mappings, and any other object, given by the name of its
  type.
\<close>

datatype raw_batch =
    Tensor nat
  | NdArray nat
  | PILImage nat
  | PyTuple "raw_batch list"
  | PyList "raw_batch list"
  | Mapping "(string \<times> raw_batch) list"
  | Other string

text \<open>\<^verbatim>\<open>isinstance(x, (torch.Tensor, np.ndarray, PIL.Image.Image))\<close>\<close>

fun is_array_like :: "raw_batch \<Rightarrow> bool" where
  "is_array_like (Tensor t) = True"
| "is_array_like (NdArray a) = True"
| "is_array_like (PILImage p) = True"
| "is_array_like x = False"

text \<open>\<^verbatim>\<open>isinstance(data, (Tuple, List))\<close>, and the elements of such a batch.\<close>

fun is_tuple_or_list :: "raw_batch \<Rightarrow> bool" where
  "is_tuple_or_list (PyTuple xs) = True"
| "is_tuple_or_list (PyList xs) = True"
| "is_tuple_or_list x = False"

fun elements :: "raw_batch \<Rightarrow> raw_batch list" where
  "elements (PyTuple xs) = xs"
| "elements (PyList xs) = xs"
| "elements x = []"

text \<open>\<^verbatim>\<open>isinstance(data, (Tuple, List, Mapping, Tuple, List))\<close>\<close>

fun is_supported_container :: "raw_batch \<Rightarrow> bool" where
  "is_supported_container (PyTuple xs) = True"
| "is_supported_container (PyList xs) = True"
| "is_supported_container (Mapping kvs) = True"
| "is_supported_container x = False"

text \<open>What \<^verbatim>\<open>{type(data)}\<close> prints in an f-string: \<^verbatim>\<open><class 'tuple'>\<close>.\<close>

fun type_name :: "raw_batch \<Rightarrow> string" where
  "type_name (Tensor t) = ''torch.Tensor''"
| "type_name (NdArray a) = ''numpy.ndarray''"
| "type_name (PILImage p) = ''PIL.Image.Image''"
| "type_name (PyTuple xs) = ''tuple''"
| "type_name (PyList xs) = ''list''"
| "type_name (Mapping kvs) = ''dict''"
| "type_name (Other name) = name"

definition type_repr :: "raw_batch \<Rightarrow> string" where
  "type_repr data = ''<class '' @ [CHR 0x27] @ type_name data @ [CHR 0x27] @ ''>''"

text \<open>
  What \<^verbatim>\<open>data_config.images_extractor\<close> holds once it is set: a path such as
  \<^verbatim>\<open>"[0]"\<close>, or a function, here by a number.
\<close>

datatype tensor_extractor = Path string | Function nat

datatype task = Images | Labels

text \<open>
  What a resolution does, in order: control passes the memo test of
  \<^verbatim>\<open>_get_<task>_extractor\<close>, \<^verbatim>\<open>auto_extractor.find_extractor\<close> is called, the operator
  is asked.
\<close>

datatype adapter_event = Resolving task | FindExtractor task | Asked task

text \<open>A dataset extractor found by the auto extractor: its method and its attribute.\<close>

record dataset_extractor =
  dataset_images_extractor :: "raw_batch \<Rightarrow> tensor_extractor"
  dataset_labels_extractor :: tensor_extractor

record Question =
  question :: string
  options :: "string list"

text \<open>
  The adapter's state: the two slots of its \<^verbatim>\<open>data_config\<close>, and the log of what it
  has done.
\<close>

record DatasetAdapter =
  images_extractor :: "tensor_extractor option"
  labels_extractor :: "tensor_extractor option"
  log :: "adapter_event list"

text \<open>
  The code the adapter calls that is not among the sources: the auto extractor's
  \<^verbatim>\<open>find_extractor\<close>, \<^verbatim>\<open>get_tensor_extractor_options\<close>, \<^verbatim>\<open>text_to_yellow\<close>, the
  operator's answer to a question with its hint, the call of a resolved extractor on a
  batch, and \<^verbatim>\<open>to_torch\<close>.
\<close>

record adapter_env =
  find_extractor :: "raw_batch \<Rightarrow> dataset_extractor option"
  get_tensor_extractor_options :: "raw_batch \<Rightarrow> string \<times> string list"
  text_to_yellow :: "string \<Rightarrow> string"
  answer :: "Question \<Rightarrow> string \<Rightarrow> tensor_extractor"
  call_extractor :: "tensor_extractor \<Rightarrow> raw_batch \<Rightarrow> error + raw_batch"
  to_torch :: "raw_batch \<Rightarrow> error + raw_batch"

text \<open>
  Modelled from the spec: \<^verbatim>\<open>DataConfig.get_images_extractor\<close> and
  \<^verbatim>\<open>DataConfig.get_labels_extractor\<close> (\<^verbatim>\<open>config/data/data_config.py\<close> is not among the
  sources). The spec: a prior resolution is returned unchanged; the operator's choice is
  adopted as the memoized extractor; the slot is written at most once per run. The
  result stands for the callable made of the slot's value. Without a value and without
  a question there is nothing to return; the adapter never calls it so.
\<close>

definition DataConfig_get_images_extractor :: "adapter_env \<Rightarrow> (Question \<times> string) option
    \<Rightarrow> DatasetAdapter \<Rightarrow> (error + tensor_extractor) \<times> DatasetAdapter" where
  "DataConfig_get_images_extractor env q st =
     (case images_extractor st of
        Some e \<Rightarrow> (Inr e, st)
      | None \<Rightarrow>
          (case q of
             Some (qu, hint) \<Rightarrow>
               (Inr (answer env qu hint),
                st\<lparr>images_extractor := Some (answer env qu hint), log := log st @ [Asked Images]\<rparr>)
           | None \<Rightarrow> (Inl TypeError, st)))"

definition DataConfig_get_labels_extractor :: "adapter_env \<Rightarrow> (Question \<times> string) option
    \<Rightarrow> DatasetAdapter \<Rightarrow> (error + tensor_extractor) \<times> DatasetAdapter" where
  "DataConfig_get_labels_extractor env q st =
     (case labels_extractor st of
        Some e \<Rightarrow> (Inr e, st)
      | None \<Rightarrow>
          (case q of
             Some (qu, hint) \<Rightarrow>
               (Inr (answer env qu hint),
                st\<lparr>labels_extractor := Some (answer env qu hint), log := log st @ [Asked Labels]\<rparr>)
           | None \<Rightarrow> (Inl TypeError, st)))"

text \<open>The message of the final \<^verbatim>\<open>raise NotImplementedError(...)\<close>, three f-string lines.\<close>

definition not_supported_message :: "string \<Rightarrow> raw_batch \<Rightarrow> string" where
  "not_supported_message extractor_name data =
     ''Got object '' @ type_repr data @ '' from Data Iterator which is not supported!'' @ [CHR 0x0A]
     @ ''Please implement a custom `'' @ extractor_name @ ''` for your dataset. ''
     @ ''You can find more detail about this in our documentation: https://github.com/Deci-AI/data-gradients''"

text \<open>
  \<^verbatim>\<open>_get_images_extractor\<close>. \<^verbatim>\<open>find_extractor\<close> is called once for the test and once
  more when the test succeeds.
\<close>

definition DatasetAdapter_get_images_extractor :: "adapter_env \<Rightarrow> raw_batch \<Rightarrow> DatasetAdapter
    \<Rightarrow> (error + tensor_extractor) \<times> DatasetAdapter" where
  "DatasetAdapter_get_images_extractor env data st =
     (if images_extractor st \<noteq> None then DataConfig_get_images_extractor env None st
      else
        let st1 = st\<lparr>log := log st @ [Resolving Images]\<rparr> in
        if is_tuple_or_list data \<and> length (elements data) = 2 \<and> is_array_like (elements data ! 0)
        then DataConfig_get_images_extractor env None (st1\<lparr>images_extractor := Some (Path ''[0]'')\<rparr>)
        else
          (case find_extractor env data of
             Some dataset_extractor \<Rightarrow>
               DataConfig_get_images_extractor env None
                 (st1\<lparr>images_extractor := Some (dataset_images_extractor dataset_extractor data),
                      log := log st1 @ [FindExtractor Images, FindExtractor Images]\<rparr>)
           | None \<Rightarrow>
               let st2 = st1\<lparr>log := log st1 @ [FindExtractor Images]\<rparr> in
               if is_supported_container data
               then
                 (case get_tensor_extractor_options env data of
                    (description, opts) \<Rightarrow>
                      DataConfig_get_images_extractor env
                        (Some (\<lparr>question = ''Which tensor represents your ''
                                   @ text_to_yellow env ''Image(s)'' @ '' ?'',
                                 options = opts\<rparr>, description))
                        st2)
               else (Inl (NotImplementedError (not_supported_message ''images_extractor'' data)), st2)))"

text \<open>
  \<^verbatim>\<open>_get_labels_extractor\<close>: index 1, and the dataset extractor's \<^verbatim>\<open>labels_extractor\<close>
  attribute as it is.
\<close>

definition DatasetAdapter_get_labels_extractor :: "adapter_env \<Rightarrow> raw_batch \<Rightarrow> DatasetAdapter
    \<Rightarrow> (error + tensor_extractor) \<times> DatasetAdapter" where
  "DatasetAdapter_get_labels_extractor env data st =
     (if labels_extractor st \<noteq> None then DataConfig_get_labels_extractor env None st
      else
        let st1 = st\<lparr>log := log st @ [Resolving Labels]\<rparr> in
        if is_tuple_or_list data \<and> length (elements data) = 2 \<and> is_array_like (elements data ! 1)
        then DataConfig_get_labels_extractor env None (st1\<lparr>labels_extractor := Some (Path ''[1]'')\<rparr>)
        else
          (case find_extractor env data of
             Some dataset_extractor \<Rightarrow>
               DataConfig_get_labels_extractor env None
                 (st1\<lparr>labels_extractor := Some (dataset_labels_extractor dataset_extractor),
                      log := log st1 @ [FindExtractor Labels, FindExtractor Labels]\<rparr>)
           | None \<Rightarrow>
               let st2 = st1\<lparr>log := log st1 @ [FindExtractor Labels]\<rparr> in
               if is_supported_container data
               then
                 (case get_tensor_extractor_options env data of
                    (description, opts) \<Rightarrow>
                      DataConfig_get_labels_extractor env
                        (Some (\<lparr>question = ''Which tensor represents your ''
                                   @ text_to_yellow env ''Label(s)'' @ '' ?'',
                                 options = opts\<rparr>, description))
                        st2)
               else (Inl (NotImplementedError (not_supported_message ''labels_extractor'' data)), st2)))"

text \<open>\<^verbatim>\<open>_extract_images\<close>, \<^verbatim>\<open>_extract_labels\<close>: resolve, then call the extractor on the batch.\<close>

definition DatasetAdapter_extract_images :: "adapter_env \<Rightarrow> raw_batch \<Rightarrow> DatasetAdapter
    \<Rightarrow> (error + raw_batch) \<times> DatasetAdapter" where
  "DatasetAdapter_extract_images env data st =
     (case DatasetAdapter_get_images_extractor env data st of
        (Inl e, st') \<Rightarrow> (Inl e, st')
      | (Inr extractor, st') \<Rightarrow> (call_extractor env extractor data, st'))"

definition DatasetAdapter_extract_labels :: "adapter_env \<Rightarrow> raw_batch \<Rightarrow> DatasetAdapter
    \<Rightarrow> (error + raw_batch) \<times> DatasetAdapter" where
  "DatasetAdapter_extract_labels env data st =
     (case DatasetAdapter_get_labels_extractor env data st of
        (Inl e, st') \<Rightarrow> (Inl e, st')
      | (Inr extractor, st') \<Rightarrow> (call_extractor env extractor data, st'))"

text \<open>\<^verbatim>\<open>extract\<close>: images, then labels, then \<^verbatim>\<open>to_torch\<close> of each.\<close>

definition DatasetAdapter_extract :: "adapter_env \<Rightarrow> raw_batch \<Rightarrow> DatasetAdapter
    \<Rightarrow> (error + raw_batch \<times> raw_batch) \<times> DatasetAdapter" where
  "DatasetAdapter_extract env data st =
     (case DatasetAdapter_extract_images env data st of
        (Inl e, st1) \<Rightarrow> (Inl e, st1)
      | (Inr images, st1) \<Rightarrow>
          (case DatasetAdapter_extract_labels env data st1 of
             (Inl e, st2) \<Rightarrow> (Inl e, st2)
           | (Inr labels, st2) \<Rightarrow>
               (case to_torch env images of
                  Inl e \<Rightarrow> (Inl e, st2)
                | Inr i \<Rightarrow>
                    (case to_torch env labels of
                       Inl e \<Rightarrow> (Inl e, st2)
                     | Inr l \<Rightarrow> (Inr (i, l), st2)))))"

text \<open>
  A run's use of the adapter: \<^verbatim>\<open>extract\<close> on each raw batch in turn, train or val, until
  one raises.
\<close>

fun DatasetAdapter_extract_all :: "adapter_env \<Rightarrow> raw_batch list \<Rightarrow> DatasetAdapter
    \<Rightarrow> (error + (raw_batch \<times> raw_batch) list) \<times> DatasetAdapter" where
  "DatasetAdapter_extract_all env [] st = (Inr [], st)"
| "DatasetAdapter_extract_all env (data # rest) st =
     (case DatasetAdapter_extract env data st of
        (Inl e, st1) \<Rightarrow> (Inl e, st1)
      | (Inr pair, st1) \<Rightarrow>
          (case DatasetAdapter_extract_all env rest st1 of
             (Inl e, st2) \<Rightarrow> (Inl e, st2)
           | (Inr pairs, st2) \<Rightarrow> (Inr (pair # pairs), st2)))"

text \<open>How often a log enters the resolution of a task.\<close>

definition resolutions :: "task \<Rightarrow> adapter_event list \<Rightarrow> nat" where
  "resolutions t lg = length (filter (\<lambda>ev. ev = Resolving t) lg)"

text \<open>The events of a log that belong to a task.\<close>

definition task_events :: "task \<Rightarrow> adapter_event list \<Rightarrow> adapter_event list" where
  "task_events t lg = filter (\<lambda>ev. ev = Resolving t \<or> ev = FindExtractor t \<or> ev = Asked t) lg"

text \<open>
  \<^verbatim>\<open>DatasetAdapter.__init__\<close>: the adapter starts from the data configuration it is
  given, whose slots hold the extractors the caller passed, if any.
\<close>

definition DatasetAdapter_init :: "tensor_extractor option \<Rightarrow> tensor_extractor option \<Rightarrow> DatasetAdapter" where
  "DatasetAdapter_init images labels = \<lparr>images_extractor = images, labels_extractor = labels, log = []\<rparr>"

text \<open>
  A stand-in for the absent collaborators, for concrete runs: no dataset extractor
  matches, the operator answers with the path \<^verbatim>\<open>[0]\<close>, an extractor hands the batch on.
\<close>

definition example_env :: adapter_env where
  "example_env =
     \<lparr> find_extractor = (\<lambda>data. None),
       get_tensor_extractor_options = (\<lambda>data. ([], [])),
       text_to_yellow = (\<lambda>s. s),
       answer = (\<lambda>q hint. Path ''[0]''),
       call_extractor = (\<lambda>e data. Inr data),
       to_torch = Inr \<rparr>"

section \<open>DetectionAnalysisManager (managers/detection\_manager.py)\<close>

text \<open>\<^verbatim>\<open>str(i)\<close> of a number of \<^verbatim>\<open>range(n)\<close>: its decimal digits.\<close>

fun str_nat :: "nat \<Rightarrow> string" where
  "str_nat n =
     (if n < 10 then [char_of (48 + n)]
      else str_nat (n div 10) @ [char_of (48 + n mod 10)])"

text \<open>\<^verbatim>\<open>range(n)\<close> of an integer: empty when \<^verbatim>\<open>n\<close> is not positive.\<close>

definition py_range :: "int \<Rightarrow> nat list" where
  "py_range n = [0..<nat n]"

text \<open>
  The constructor up to the values it hands to the batch processor and to
  \<^verbatim>\<open>super().__init__\<close>: \<^verbatim>\<open>class_names\<close> and \<^verbatim>\<open>class_names_to_use\<close>. The data iterables are
  only passed on by the last statement. \<^verbatim>\<open>if n_classes and class_names\<close> tests truth
  values (a number other than 0, a list that is not empty); the \<^verbatim>\<open>elif\<close> tests
  \<^verbatim>\<open>is None\<close>. \<^verbatim>\<open>range(None)\<close> raises TypeError. The message about
  \<^verbatim>\<open>class_names_to_use\<close> ends with the set of invalid names, left out here.
\<close>

definition DetectionAnalysisManager_init :: "'f option \<Rightarrow> string option \<Rightarrow> int option
    \<Rightarrow> string list option \<Rightarrow> string list option \<Rightarrow> error + string list \<times> string list" where
  "DetectionAnalysisManager_init feature_extractors config_path n_classes class_names class_names_to_use =
     (if feature_extractors \<noteq> None \<and> config_path \<noteq> None
      then Inl (RuntimeError ''`feature_extractors` and `config_path` cannot be specified at the same time'')
      else if (\<exists>n. n_classes = Some n \<and> n \<noteq> 0) \<and> (\<exists>names. class_names = Some names \<and> names \<noteq> [])
      then Inl (RuntimeError ''`class_names` and `n_classes` cannot be specified at the same time'')
      else if n_classes = None \<and> class_names = None
      then Inl (RuntimeError ''Either `class_names` or `n_classes` must be specified'')
      else
        (case (case class_names of
                 Some (name # names) \<Rightarrow> Inr (name # names)
               | _ \<Rightarrow> (case n_classes of
                         None \<Rightarrow> Inl TypeError
                       | Some n \<Rightarrow> Inr (map str_nat (py_range n)))) of
           Inl e \<Rightarrow> Inl e
         | Inr names \<Rightarrow>
             (case class_names_to_use of
                Some (u # us) \<Rightarrow>
                  if set (u # us) - set names \<noteq> {}
                  then Inl (RuntimeError ''You defined `class_names_to_use` with classes that are not listed in `class_names`: '')
                  else Inr (names, u # us)
              | _ \<Rightarrow> Inr (names, names))))"

section \<open>Feature extractors (feature\_extractors)\<close>


text \<open>State kept per split, \<^verbatim>\<open>{"train": ..., "val": ...}\<close>.\<close>

record 'a per_split =
  of_train :: 'a
  of_val :: 'a

definition get_split :: "split \<Rightarrow> 'a per_split \<Rightarrow> 'a" where
  "get_split sp d = (case sp of Train \<Rightarrow> of_train d | Val \<Rightarrow> of_val d)"

definition set_split :: "split \<Rightarrow> 'a \<Rightarrow> 'a per_split \<Rightarrow> 'a per_split" where
  "set_split sp x d = (case sp of Train \<Rightarrow> d\<lparr>of_train := x\<rparr> | Val \<Rightarrow> d\<lparr>of_val := x\<rparr>)"

subsection \<open>ImagesResolutions\<close>

text \<open>
  What \<^verbatim>\<open>update\<close> reads of a batch: the shape \<^verbatim>\<open>(C, H, W)\<close> of every image, and the
  split.
\<close>

record BatchData =
  images :: "(nat \<times> nat \<times> nat) list"
  batch_split :: split





text \<open>
  \<^verbatim>\<open>aggregate\<close>: \<^verbatim>\<open>merge_dict_splits\<close> works on the extractor's state, then the result
  \<^verbatim>\<open>(values, bins)\<close> is read from the split's dict. \<^verbatim>\<open>merge_dict_splits\<close> belongs to
  the abstract extractor, which is not among the sources, and is the parameter
  \<^term>\<open>merge\<close>. Returned with the state it leaves.
\<close>

definition ImagesResolutions_aggregate :: "((string \<times> nat) list per_split \<Rightarrow> (string \<times> nat) list per_split)
    \<Rightarrow> (string \<times> nat) list per_split \<Rightarrow> split
    \<Rightarrow> (nat list \<times> string list) \<times> (string \<times> nat) list per_split" where
  "ImagesResolutions_aggregate merge hist sp =
     (let hist' = merge hist
      in ((map snd (get_split sp hist'), map fst (get_split sp hist')), hist'))"


subsection \<open>GetClassDistribution\<close>

text \<open>
  A key of the histogram is a class id until \<^verbatim>\<open>aggregate\<close> has replaced it by the
  class's name.
\<close>

datatype bin = ClassId int | ClassName string

record Contour =
  class_id :: int

text \<open>\<^verbatim>\<open>data.contours\<close>: per image, per class, the contours; and the split.\<close>

record SegBatchData =
  contours :: "Contour list list list"
  seg_split :: split

record GetClassDistribution =
  hist :: "(bin \<times> nat) list per_split"
  total_objects :: "nat per_split"
  ignore_labels :: "int list"
  id_to_name :: "(int \<times> string) list option"






subsection \<open>SegmentationGetClassDistribution (feature\_extractors/segmentation\_extractors.py)\<close>

text \<open>
  \<^verbatim>\<open>self._hist\<close> is a Python list of counts until \<^verbatim>\<open>process\<close> replaces it by
  \<^verbatim>\<open>np.array(self._hist) / sum(self._hist)\<close>, an ndarray. An element of the array is kept
  as the pair of count and sum it is the quotient of.
\<close>

datatype class_hist = Counts "int list" | Normalized "(int \<times> int) list"

definition SegmentationGetClassDistribution_init :: "int \<Rightarrow> class_hist" where
  "SegmentationGetClassDistribution_init number_of_classes = Counts (replicate (nat number_of_classes) 0)"

text \<open>\<^verbatim>\<open>list.index\<close> of a value the list holds: its first position.\<close>

fun first_index :: "'a \<Rightarrow> 'a list \<Rightarrow> nat" where
  "first_index x [] = 0"
| "first_index x (y # ys) = (if x = y then 0 else Suc (first_index x ys))"

text \<open>
  The dict comprehension evaluates \<^verbatim>\<open>label_to_class[self._hist.index(self._hist[i])]\<close>
  for every position in turn; \<^verbatim>\<open>label_to_class\<close> is imported from a module that is not
  among the sources and is a parameter that may raise.
\<close>

fun lookup_labels :: "(nat \<Rightarrow> error + string) \<Rightarrow> nat list \<Rightarrow> error + string list" where
  "lookup_labels label_to_class [] = Inr []"
| "lookup_labels label_to_class (i # rest) =
     (case label_to_class i of
        Inl e \<Rightarrow> Inl e
      | Inr label \<Rightarrow>
          (case lookup_labels label_to_class rest of
             Inl e \<Rightarrow> Inl e
           | Inr labels \<Rightarrow> Inr (label # labels)))"

text \<open>
  \<^verbatim>\<open>process\<close>, up to what it plots: the values and the labels handed to
  \<^verbatim>\<open>create_bar_plot\<close>, with the state it leaves. The label of a position is the one of
  the first position that holds the same count. On an ndarray, \<^verbatim>\<open>self._hist.index\<close>
  raises AttributeError as soon as the comprehension evaluates it, that is unless the
  array is empty.
\<close>

definition SegmentationGetClassDistribution_process :: "(nat \<Rightarrow> error + string) \<Rightarrow> class_hist
    \<Rightarrow> (error + (int \<times> int) list \<times> string list) \<times> class_hist" where
  "SegmentationGetClassDistribution_process label_to_class st =
     (case st of
        Counts h \<Rightarrow>
          (case lookup_labels label_to_class (map (\<lambda>count. first_index count h) h) of
             Inl e \<Rightarrow> (Inl e, st)
           | Inr labels \<Rightarrow>
               (Inr (map (\<lambda>count. (count, sum_list h)) h, labels),
                Normalized (map (\<lambda>count. (count, sum_list h)) h)))
      | Normalized [] \<Rightarrow> (Inr ([], []), Normalized [])
      | Normalized (x # xs) \<Rightarrow> (Inl AttributeError, st))"

subsection \<open>ClassificationClassDistributionVsArea\<close>













subsection \<open>Auxiliary functions\<close>


text \<open>
  Used to state what a successful \<^verbatim>\<open>update\<close> of GetClassDistribution does: the
  increments a batch asks for, the addition of one increment to the entry of its key,
  and a batch's increments applied to the extractor's state.
\<close>

definition increments :: "Contour list list \<Rightarrow> (bin \<times> nat) list" where
  "increments image_contours =
     map (\<lambda>cls_contours. (ClassId (class_id (hd cls_contours)), length cls_contours))
       (filter (\<lambda>cls_contours. cls_contours \<noteq> []) image_contours)"

fun bump :: "'k \<times> nat \<Rightarrow> ('k \<times> nat) list \<Rightarrow> ('k \<times> nat) list" where
  "bump (k, n) [] = []"
| "bump (k, n) ((k', v) # kvs) = (if k = k' then (k', v + n) # kvs else (k', v) # bump (k, n) kvs)"

definition apply_batch :: "SegBatchData \<Rightarrow> GetClassDistribution \<Rightarrow> GetClassDistribution" where
  "apply_batch data st =
     st\<lparr>hist := set_split (seg_split data)
                 (fold bump (increments (concat (contours data))) (get_split (seg_split data) (hist st)))
                 (hist st),
        total_objects := set_split (seg_split data)
                 (get_split (seg_split data) (total_objects st)
                    + sum_list (map snd (increments (concat (contours data)))))
                 (total_objects st)\<rparr>"

definition batch_keys_known :: "SegBatchData \<Rightarrow> GetClassDistribution \<Rightarrow> bool" where
  "batch_keys_known data st =
     (\<forall>kn \<in> set (increments (concat (contours data))).
        fst kn \<in> set (map fst (get_split (seg_split data) (hist st))))"



subsection \<open>Concrete batches\<close>









section \<open>Theorems\<close>

subsection \<open>SegmentationCountNumObjects\<close>

lemma SegmentationCountNumObjects_execute_length:
  "length (fst (SegmentationCountNumObjects_execute batch h)) = length h"
  by (induction batch arbitrary: h) (auto simp: Let_def)

lemma SegmentationCountNumObjects_execute_error:
  "snd (SegmentationCountNumObjects_execute batch h) =
     (if \<exists>img \<in> set batch. length h \<le> num_objects_per_image img then Some IndexError else None)"
  by (induction batch arbitrary: h) (auto simp: Let_def)

text \<open>
  Claim C10. With the histogram of 51 counters, \<^verbatim>\<open>execute\<close> raises IndexError exactly
  when some image of the batch has more than 50 contour objects in total; when every
  image has at most 50 the update succeeds, and the histogram keeps its 51 counters
  either way.
\<close>

theorem C10_count_num_objects_index_error:
  assumes "length h = 51"
  shows "((\<exists>img \<in> set batch. 50 < num_objects_per_image img) \<longrightarrow>
            snd (SegmentationCountNumObjects_execute batch h) = Some IndexError)
       \<and> ((\<forall>img \<in> set batch. num_objects_per_image img \<le> 50) \<longrightarrow>
            snd (SegmentationCountNumObjects_execute batch h) = None)
       \<and> length (fst (SegmentationCountNumObjects_execute batch h)) = 51"
proof -
  have le_iff: "\<And>n::nat. (51 \<le> n) = (50 < n)"
    by auto
  have "snd (SegmentationCountNumObjects_execute batch h) =
          (if \<exists>img \<in> set batch. 50 < num_objects_per_image img then Some IndexError else None)"
    by (simp add: SegmentationCountNumObjects_execute_error assms le_iff)
  moreover have "(\<forall>img \<in> set batch. num_objects_per_image img \<le> 50) \<longrightarrow>
          \<not> (\<exists>img \<in> set batch. 50 < num_objects_per_image img)"
    by (auto simp: not_less)
  ultimately show ?thesis
    by (simp add: SegmentationCountNumObjects_execute_length assms)
qed

theorem C10_count_num_objects_index_error_witness:
  "length SegmentationCountNumObjects_init = 51
   \<and> snd (SegmentationCountNumObjects_execute [[replicate 51 (0::nat)]] SegmentationCountNumObjects_init)
       = Some IndexError
   \<and> snd (SegmentationCountNumObjects_execute [[[0::nat], [1, 2]]] SegmentationCountNumObjects_init)
       = None"
proof -
  have h: "length SegmentationCountNumObjects_init = 51"
    by (simp add: SegmentationCountNumObjects_init_def)
  show ?thesis
    using h C10_count_num_objects_index_error [OF h, of "[[replicate 51 (0::nat)]]"]
      C10_count_num_objects_index_error [OF h, of "[[[0::nat], [1, 2]]]"]
    by simp
qed

subsection \<open>AnalysisManager: how often the iterators are pulled\<close>

lemma pulls_Nil: "pulls sp [] = 0"
  by (simp add: pulls_def)

lemma pulls_append: "pulls sp (xs @ ys) = pulls sp xs + pulls sp ys"
  by (simp add: pulls_def)

lemma execute_each_pulls:
  "execute_each ex sp b i ss = ((ss', evs), r) \<Longrightarrow> pulls sp' evs = 0"
proof (induction ss arbitrary: i ss' evs r)
  case Nil
  then show ?case by (simp add: pulls_def)
next
  case (Cons s ss)
  obtain s1 r1 where e: "ex b s = (s1, r1)" by (cases "ex b s")
  show ?case
  proof (cases r1)
    case None
    obtain ss2 evs2 r2 where rec: "execute_each ex sp b (Suc i) ss = ((ss2, evs2), r2)"
      by (metis prod.exhaust)
    from Cons.IH [OF rec] have "pulls sp' evs2 = 0" .
    with Cons.prems e None rec show ?thesis by (auto simp: pulls_def)
  next
    case (Some a)
    with Cons.prems e show ?thesis by (auto simp: pulls_def)
  qed
qed

lemma submit_rounds_pulls:
  "submit_rounds ex sp b k (ss, evs) = (ss', evs') \<Longrightarrow> pulls sp' evs' = pulls sp' evs"
  by (induction k arbitrary: ss evs) (auto simp: pulls_def submit_each_def)

lemma get_batch_trace: "trace (snd (get_batch c sp m)) = trace m @ [Next sp]"
  by (auto simp: get_batch_def Let_def split: split.splits list.splits)

lemma train_loop_pulls:
  "pulls sp (trace (fst (fst (train_loop dbg c b (m, f))))) = pulls sp (trace m)"
  by (auto simp: train_loop_def pulls_append pulls_Nil split: prod.splits
      dest: submit_rounds_pulls [where sp' = sp] execute_each_pulls [where sp' = sp])

lemma val_loop_pulls:
  "pulls sp (trace (fst (fst (val_loop dbg c b (m, f))))) = pulls sp (trace m)"
  by (auto simp: val_loop_def pulls_append pulls_Nil split: prod.splits option.splits
      dest: submit_rounds_pulls [where sp' = sp] execute_each_pulls [where sp' = sp])

lemma val_part_pulls:
  "pulls sp (trace (fst (fst (val_part dbg c (m, f))))) \<le> pulls sp (trace m) + (if sp = Val then 1 else 0)"
proof (cases "train_only m")
  case True
  then show ?thesis by (simp add: val_part_def)
next
  case False
  obtain r m1 where g: "get_batch c Val m = (r, m1)" by (cases "get_batch c Val m")
  then have t: "trace m1 = trace m @ [Next Val]" using get_batch_trace [of c Val m] by simp
  show ?thesis
    using False g t val_loop_pulls [of sp dbg c _ m1 f]
    by (auto simp: val_part_def pulls_append pulls_def split: sum.splits error.splits)
qed

lemma iteration_pulls:
  "pulls sp (trace (fst (fst (iteration dbg c i (m, f))))) \<le> pulls sp (trace m) + 1"
proof (cases "i > 3 \<and> dbg")
  case True
  then show ?thesis by (simp add: iteration_def)
next
  case False
  obtain r m1 where g: "get_batch c Train m = (r, m1)" by (cases "get_batch c Train m")
  then have t: "trace m1 = trace m @ [Next Train]" using get_batch_trace [of c Train m] by simp
  show ?thesis
  proof (cases r)
    case (Inl e)
    with False g t show ?thesis by (auto simp: iteration_def pulls_def)
  next
    case (Inr b)
    obtain m2 f2 r2 where tl: "train_loop dbg c b (m1, f) = ((m2, f2), r2)"
      by (metis prod.exhaust)
    have p2: "pulls sp (trace m2) = pulls sp (trace m1)"
      using train_loop_pulls [of sp dbg c b m1 f] tl by simp
    obtain m3 f3 r3 where vp: "val_part dbg c (m2, f2) = ((m3, f3), r3)"
      by (metis prod.exhaust)
    have p3: "pulls sp (trace m3) \<le> pulls sp (trace m2) + (if sp = Val then 1 else 0)"
      using val_part_pulls [of sp dbg c m2 f2] vp by simp
    have p1: "pulls sp (trace m1) = pulls sp (trace m) + (if sp = Train then 1 else 0)"
      using t by (auto simp: pulls_def)
    have "pulls sp (trace m3) \<le> pulls sp (trace m) + 1" "pulls sp (trace m2) \<le> pulls sp (trace m) + 1"
      using p1 p2 p3 by (cases sp; simp)+
    then show ?thesis
      using False g Inr tl vp by (auto simp: iteration_def split: option.splits)
  qed
qed

lemma iteration_skip: "3 < i \<Longrightarrow> iteration True c i mf = (mf, None)"
  by (cases mf) (simp add: iteration_def)

lemma execute_loop_pulls:
  "pulls sp (trace (fst (fst (execute_loop True c is (m, f)))))
     \<le> pulls sp (trace m) + length (filter (\<lambda>i. i \<le> 3) is)"
proof (induction "is" arbitrary: m f)
  case Nil
  then show ?case by simp
next
  case (Cons i "is")
  show ?case
  proof (cases "3 < i")
    case True
    then show ?thesis using Cons.IH [of m f] by (simp add: iteration_skip)
  next
    case False
    obtain m1 f1 r1 where it: "iteration True c i (m, f) = ((m1, f1), r1)"
      by (metis prod.exhaust)
    have p: "pulls sp (trace m1) \<le> pulls sp (trace m) + 1"
      using iteration_pulls [of sp True c i m f] it by simp
    show ?thesis
      using False it p Cons.IH [of m1 f1] by (auto split: option.splits)
  qed
qed

lemma filter_le3_upt: "length (filter (\<lambda>i. i \<le> 3) [0..<n]) = min n 4"
proof (induction n)
  case 0
  then show ?case by simp
next
  case (Suc n)
  then show ?case by auto
qed

lemma execute_pulls:
  "pulls sp (trace (fst (execute True c m))) \<le> pulls sp (trace m) + 4"
proof -
  have "pulls sp (trace (fst (execute True c m)))
          = pulls sp (trace (fst (fst (execute_loop True c [0..<length_data m] (m, None)))))"
    by (simp add: execute_def split: prod.splits)
  also have "\<dots> \<le> pulls sp (trace m) + min (length_data m) 4"
    using execute_loop_pulls [of sp c "[0..<length_data m]" m None] by (simp add: filter_le3_upt)
  finally show ?thesis by simp
qed

subsection \<open>AnalysisManager: runs in which only the val iterator fails\<close>















lemma iteration_skip_pair: "3 < i \<Longrightarrow> iteration True c i (m, f) = ((m, f), None)"
  by (simp add: iteration_def)









text \<open>
  Claim C9. With \<^verbatim>\<open>debug_mode\<close> as shipped, an iteration whose index exceeds 3 returns
  the manager as it found it (no pull, no extractor call, no exception), and
  \<^verbatim>\<open>execute\<close> pulls at most 4 times from the train iterator and at most 4 times
  from the val iterator, whatever \<^verbatim>\<open>_length_data\<close> is and whether or not it ends in an
  exception.
\<close>

theorem C9_debug_mode_caps_batches:
  "(\<forall>i mf. 3 < i \<longrightarrow> iteration debug_mode c i mf = (mf, None))
   \<and> pulls Train (trace (fst (execute debug_mode c m))) \<le> pulls Train (trace m) + 4
   \<and> pulls Val (trace (fst (execute debug_mode c m))) \<le> pulls Val (trace m) + 4"
  using execute_pulls [of Train c m] execute_pulls [of Val c m]
  by (simp add: debug_mode_def iteration_skip)



theorem C9_debug_mode_caps_batches_witness:
  "(3::nat) < 7
   \<and> iteration debug_mode counting_collaborators 7 (example_manager, None)
       = ((example_manager, None), None)
   \<and> pulls Train (trace (fst (execute debug_mode counting_collaborators example_manager))) \<le> 4
   \<and> pulls Val (trace (fst (execute debug_mode counting_collaborators example_manager))) \<le> 4"
  using C9_debug_mode_caps_batches [of counting_collaborators example_manager]
  by (simp add: example_manager_def AnalysisManager_init_def pulls_def)

subsection \<open>AnalysisManager: the two modes\<close>

text \<open>
  Claim C8, evaluated. One train batch, two extractors: the debug branch calls each
  extractor's \<^verbatim>\<open>execute\<close> once, the thread-pool branch submits it twice (the
  comprehension over all extractors runs once per extractor), so each counter ends at 2
  instead of 1. Five train batches, one extractor: the debug branch stops pulling after
  four, the thread-pool branch pulls all five. The submissions are what the code does
  under every schedule of the pool; the counters are those of the schedule that runs
  each task when it is submitted.
\<close>

theorem C8_modes_differ:
  "execute True counting_collaborators one_batch_manager
     = (one_batch_manager\<lparr>train_iter := [], train_extractors := [1, 1],
          trace := [Next Train, Execute Train 0, Execute Train 1]\<rparr>, None)
   \<and> execute False counting_collaborators one_batch_manager
     = (one_batch_manager\<lparr>train_iter := [], train_extractors := [2, 2],
          trace := [Next Train, Submit Train 0, Submit Train 1, Submit Train 0, Submit Train 1]\<rparr>, None)
   \<and> train_extractors (fst (execute True counting_collaborators five_batch_manager)) = [4]
   \<and> train_extractors (fst (execute False counting_collaborators five_batch_manager)) = [5]"
proof -
  have u1: "[0..<1] = [0]" "[0..<2] = [0, Suc 0]" "[0..<5] = [0, 1, 2, 3, 4]"
    by (simp_all add: upt_rec)
  have s2: "\<And>ex sp b acc. submit_rounds ex sp b 2 acc = submit_rounds ex sp b (Suc (Suc 0)) acc"
    by (simp add: numeral_2_eq_2)
  show ?thesis
    by (simp add: execute_def one_batch_manager_def five_batch_manager_def AnalysisManager_init_def
        counting_collaborators_def iteration_def get_batch_def train_loop_def val_part_def
        submit_each_def u1 s2)
qed

subsection \<open>DatasetAdapter\<close>

lemma get_images_extractor_memo:
  "images_extractor st = Some e \<Longrightarrow> DatasetAdapter_get_images_extractor env data st = (Inr e, st)"
  by (simp add: DatasetAdapter_get_images_extractor_def DataConfig_get_images_extractor_def)

lemma get_labels_extractor_memo:
  "labels_extractor st = Some e \<Longrightarrow> DatasetAdapter_get_labels_extractor env data st = (Inr e, st)"
  by (simp add: DatasetAdapter_get_labels_extractor_def DataConfig_get_labels_extractor_def)

lemma get_images_extractor_effect:
  "labels_extractor (snd (DatasetAdapter_get_images_extractor env data st)) = labels_extractor st
   \<and> task_events Labels (log (snd (DatasetAdapter_get_images_extractor env data st))) = task_events Labels (log st)
   \<and> resolutions Images (log (snd (DatasetAdapter_get_images_extractor env data st)))
       = resolutions Images (log st) + (if images_extractor st = None then 1 else 0)
   \<and> resolutions Labels (log (snd (DatasetAdapter_get_images_extractor env data st))) = resolutions Labels (log st)
   \<and> ((\<exists>e. fst (DatasetAdapter_get_images_extractor env data st) = Inr e)
        \<longrightarrow> images_extractor (snd (DatasetAdapter_get_images_extractor env data st)) \<noteq> None)"
  by (auto simp: DatasetAdapter_get_images_extractor_def DataConfig_get_images_extractor_def
      task_events_def resolutions_def Let_def split: option.splits prod.splits)

lemma get_labels_extractor_effect:
  "images_extractor (snd (DatasetAdapter_get_labels_extractor env data st)) = images_extractor st
   \<and> task_events Images (log (snd (DatasetAdapter_get_labels_extractor env data st))) = task_events Images (log st)
   \<and> resolutions Labels (log (snd (DatasetAdapter_get_labels_extractor env data st)))
       = resolutions Labels (log st) + (if labels_extractor st = None then 1 else 0)
   \<and> resolutions Images (log (snd (DatasetAdapter_get_labels_extractor env data st))) = resolutions Images (log st)
   \<and> ((\<exists>e. fst (DatasetAdapter_get_labels_extractor env data st) = Inr e)
        \<longrightarrow> labels_extractor (snd (DatasetAdapter_get_labels_extractor env data st)) \<noteq> None)"
  by (auto simp: DatasetAdapter_get_labels_extractor_def DataConfig_get_labels_extractor_def
      task_events_def resolutions_def Let_def split: option.splits prod.splits)

lemma extract_images_effect:
  "labels_extractor (snd (DatasetAdapter_extract_images env data st)) = labels_extractor st
   \<and> task_events Labels (log (snd (DatasetAdapter_extract_images env data st))) = task_events Labels (log st)
   \<and> resolutions Images (log (snd (DatasetAdapter_extract_images env data st)))
       = resolutions Images (log st) + (if images_extractor st = None then 1 else 0)
   \<and> resolutions Labels (log (snd (DatasetAdapter_extract_images env data st))) = resolutions Labels (log st)
   \<and> (images_extractor st \<noteq> None \<longrightarrow> snd (DatasetAdapter_extract_images env data st) = st)
   \<and> ((\<exists>x. fst (DatasetAdapter_extract_images env data st) = Inr x)
        \<longrightarrow> images_extractor (snd (DatasetAdapter_extract_images env data st)) \<noteq> None)"
proof -
  obtain r st' where g: "DatasetAdapter_get_images_extractor env data st = (r, st')"
    by (cases "DatasetAdapter_get_images_extractor env data st")
  have s: "snd (DatasetAdapter_extract_images env data st) = st'"
    using g by (simp add: DatasetAdapter_extract_images_def split: sum.splits)
  have ok: "(\<exists>x. fst (DatasetAdapter_extract_images env data st) = Inr x) \<longrightarrow> (\<exists>e. r = Inr e)"
    using g by (auto simp: DatasetAdapter_extract_images_def split: sum.splits)
  have memo: "images_extractor st \<noteq> None \<longrightarrow> st' = st"
    using g get_images_extractor_memo [of st _ env data] by auto
  show ?thesis
    unfolding s using get_images_extractor_effect [of env data st] g ok memo by auto
qed

lemma extract_labels_effect:
  "images_extractor (snd (DatasetAdapter_extract_labels env data st)) = images_extractor st
   \<and> task_events Images (log (snd (DatasetAdapter_extract_labels env data st))) = task_events Images (log st)
   \<and> resolutions Labels (log (snd (DatasetAdapter_extract_labels env data st)))
       = resolutions Labels (log st) + (if labels_extractor st = None then 1 else 0)
   \<and> resolutions Images (log (snd (DatasetAdapter_extract_labels env data st))) = resolutions Images (log st)
   \<and> (labels_extractor st \<noteq> None \<longrightarrow> snd (DatasetAdapter_extract_labels env data st) = st)
   \<and> ((\<exists>x. fst (DatasetAdapter_extract_labels env data st) = Inr x)
        \<longrightarrow> labels_extractor (snd (DatasetAdapter_extract_labels env data st)) \<noteq> None)"
proof -
  obtain r st' where g: "DatasetAdapter_get_labels_extractor env data st = (r, st')"
    by (cases "DatasetAdapter_get_labels_extractor env data st")
  have s: "snd (DatasetAdapter_extract_labels env data st) = st'"
    using g by (simp add: DatasetAdapter_extract_labels_def split: sum.splits)
  have ok: "(\<exists>x. fst (DatasetAdapter_extract_labels env data st) = Inr x) \<longrightarrow> (\<exists>e. r = Inr e)"
    using g by (auto simp: DatasetAdapter_extract_labels_def split: sum.splits)
  have memo: "labels_extractor st \<noteq> None \<longrightarrow> st' = st"
    using g get_labels_extractor_memo [of st _ env data] by auto
  show ?thesis
    unfolding s using get_labels_extractor_effect [of env data st] g ok memo by auto
qed

lemma extract_effect:
  "resolutions Images (log (snd (DatasetAdapter_extract env data st)))
       = resolutions Images (log st) + (if images_extractor st = None then 1 else 0)
   \<and> resolutions Labels (log (snd (DatasetAdapter_extract env data st)))
       \<le> resolutions Labels (log st) + (if labels_extractor st = None then 1 else 0)
   \<and> (images_extractor st \<noteq> None \<longrightarrow>
        images_extractor (snd (DatasetAdapter_extract env data st)) = images_extractor st
        \<and> task_events Images (log (snd (DatasetAdapter_extract env data st))) = task_events Images (log st))
   \<and> (labels_extractor st \<noteq> None \<longrightarrow>
        labels_extractor (snd (DatasetAdapter_extract env data st)) = labels_extractor st
        \<and> task_events Labels (log (snd (DatasetAdapter_extract env data st))) = task_events Labels (log st))
   \<and> (images_extractor st \<noteq> None \<and> labels_extractor st \<noteq> None \<longrightarrow>
        snd (DatasetAdapter_extract env data st) = st)
   \<and> ((\<exists>x. fst (DatasetAdapter_extract env data st) = Inr x) \<longrightarrow>
        images_extractor (snd (DatasetAdapter_extract env data st)) \<noteq> None
        \<and> labels_extractor (snd (DatasetAdapter_extract env data st)) \<noteq> None)"
proof -
  obtain r1 st1 where i: "DatasetAdapter_extract_images env data st = (r1, st1)"
    by (cases "DatasetAdapter_extract_images env data st")
  obtain r2 st2 where l: "DatasetAdapter_extract_labels env data st1 = (r2, st2)"
    by (cases "DatasetAdapter_extract_labels env data st1")
  note ei = extract_images_effect [of env data st, unfolded i, simplified]
  note el = extract_labels_effect [of env data st1, unfolded l, simplified]
  show ?thesis
  proof (cases r1)
    case (Inl e)
    then have "DatasetAdapter_extract env data st = (Inl e, st1)"
      using i by (simp add: DatasetAdapter_extract_def)
    then show ?thesis using ei Inl by auto
  next
    case (Inr images)
    then have s: "snd (DatasetAdapter_extract env data st) = st2"
      using i l by (simp add: DatasetAdapter_extract_def split: sum.splits)
    have ok: "(\<exists>x. fst (DatasetAdapter_extract env data st) = Inr x) \<longrightarrow> (\<exists>y. r2 = Inr y)"
      using i l Inr by (auto simp: DatasetAdapter_extract_def split: sum.splits)
    show ?thesis unfolding s using ei el Inr ok by auto
  qed
qed

lemma extract_all_effect:
  "resolutions Images (log (snd (DatasetAdapter_extract_all env batches st)))
       \<le> resolutions Images (log st) + (if images_extractor st = None then 1 else 0)
   \<and> resolutions Labels (log (snd (DatasetAdapter_extract_all env batches st)))
       \<le> resolutions Labels (log st) + (if labels_extractor st = None then 1 else 0)
   \<and> (images_extractor st \<noteq> None \<longrightarrow>
        images_extractor (snd (DatasetAdapter_extract_all env batches st)) = images_extractor st
        \<and> task_events Images (log (snd (DatasetAdapter_extract_all env batches st))) = task_events Images (log st))
   \<and> (labels_extractor st \<noteq> None \<longrightarrow>
        labels_extractor (snd (DatasetAdapter_extract_all env batches st)) = labels_extractor st
        \<and> task_events Labels (log (snd (DatasetAdapter_extract_all env batches st))) = task_events Labels (log st))
   \<and> (images_extractor st \<noteq> None \<and> labels_extractor st \<noteq> None \<longrightarrow>
        snd (DatasetAdapter_extract_all env batches st) = st)"
proof (induction batches arbitrary: st)
  case Nil
  then show ?case by simp
next
  case (Cons data rest)
  obtain r1 st1 where e: "DatasetAdapter_extract env data st = (r1, st1)"
    by (cases "DatasetAdapter_extract env data st")
  note ee = extract_effect [of env data st, unfolded e, simplified]
  show ?case
  proof (cases r1)
    case (Inl err)
    then have "DatasetAdapter_extract_all env (data # rest) st = (Inl err, st1)"
      using e by simp
    then show ?thesis using ee by auto
  next
    case (Inr pair)
    then have s: "snd (DatasetAdapter_extract_all env (data # rest) st)
        = snd (DatasetAdapter_extract_all env rest st1)"
      using e by (simp split: prod.splits sum.splits)
    have both: "images_extractor st1 \<noteq> None" "labels_extractor st1 \<noteq> None"
      using ee Inr by auto
    show ?thesis
      unfolding s using Cons.IH [of st1] ee both by auto
  qed
qed

text \<open>
  Claim C1. Once a task's slot of the data configuration holds an extractor,
  \<^verbatim>\<open>_get_images_extractor\<close> (resp. \<^verbatim>\<open>_get_labels_extractor\<close>) returns it for any raw
  batch and leaves the adapter as it was: the slot, and the log, so no positional test
  took effect, \<^verbatim>\<open>find_extractor\<close> was not called and nobody was asked. Over a whole run,
  whatever its batches and whichever split they come from, the resolution of a task is
  entered at most once; with a slot filled at the start it is never entered and the
  slot keeps its value; with both filled the adapter ends as it started.
\<close>

theorem C1_resolved_extractor_is_reused:
  "(images_extractor st = Some ei \<longrightarrow>
      DatasetAdapter_get_images_extractor env data st = (Inr ei, st))
   \<and> (labels_extractor st = Some el \<longrightarrow>
      DatasetAdapter_get_labels_extractor env data st = (Inr el, st))
   \<and> resolutions Images (log (snd (DatasetAdapter_extract_all env batches st)))
        \<le> resolutions Images (log st) + 1
   \<and> resolutions Labels (log (snd (DatasetAdapter_extract_all env batches st)))
        \<le> resolutions Labels (log st) + 1
   \<and> (images_extractor st \<noteq> None \<longrightarrow>
        images_extractor (snd (DatasetAdapter_extract_all env batches st)) = images_extractor st
        \<and> task_events Images (log (snd (DatasetAdapter_extract_all env batches st)))
            = task_events Images (log st))
   \<and> (labels_extractor st \<noteq> None \<longrightarrow>
        labels_extractor (snd (DatasetAdapter_extract_all env batches st)) = labels_extractor st
        \<and> task_events Labels (log (snd (DatasetAdapter_extract_all env batches st)))
            = task_events Labels (log st))
   \<and> (images_extractor st \<noteq> None \<and> labels_extractor st \<noteq> None \<longrightarrow>
        snd (DatasetAdapter_extract_all env batches st) = st)"
proof -
  have a: "images_extractor st = Some ei \<longrightarrow>
      DatasetAdapter_get_images_extractor env data st = (Inr ei, st)"
    by (simp add: get_images_extractor_memo)
  have b: "labels_extractor st = Some el \<longrightarrow>
      DatasetAdapter_get_labels_extractor env data st = (Inr el, st)"
    by (simp add: get_labels_extractor_memo)
  have c: "resolutions Images (log (snd (DatasetAdapter_extract_all env batches st)))
        \<le> resolutions Images (log st) + 1"
    "resolutions Labels (log (snd (DatasetAdapter_extract_all env batches st)))
        \<le> resolutions Labels (log st) + 1"
    using extract_all_effect [of env batches st] by (auto split: if_splits)
  show ?thesis
    using a b c extract_all_effect [of env batches st] by blast
qed

theorem C1_resolved_extractor_is_reused_witness:
  "images_extractor (DatasetAdapter_init (Some (Function 0)) (Some (Path ''[1]''))) = Some (Function 0)
   \<and> labels_extractor (DatasetAdapter_init (Some (Function 0)) (Some (Path ''[1]''))) = Some (Path ''[1]'')
   \<and> DatasetAdapter_get_images_extractor example_env (PyTuple [Tensor 0, Tensor 1])
        (DatasetAdapter_init (Some (Function 0)) (Some (Path ''[1]'')))
       = (Inr (Function 0), DatasetAdapter_init (Some (Function 0)) (Some (Path ''[1]'')))
   \<and> DatasetAdapter_get_labels_extractor example_env (PyTuple [Tensor 0, Tensor 1])
        (DatasetAdapter_init (Some (Function 0)) (Some (Path ''[1]'')))
       = (Inr (Path ''[1]''), DatasetAdapter_init (Some (Function 0)) (Some (Path ''[1]'')))
   \<and> snd (DatasetAdapter_extract_all example_env
             [PyTuple [Tensor 0, Tensor 1], Mapping [], Other ''int'']
             (DatasetAdapter_init (Some (Function 0)) (Some (Path ''[1]''))))
       = DatasetAdapter_init (Some (Function 0)) (Some (Path ''[1]''))"
  using C1_resolved_extractor_is_reused [of "DatasetAdapter_init (Some (Function 0)) (Some (Path ''[1]''))"
      "Function 0" example_env "PyTuple [Tensor 0, Tensor 1]" "Path ''[1]''"
      "[PyTuple [Tensor 0, Tensor 1], Mapping [], Other ''int'']"]
  by (simp add: DatasetAdapter_init_def)

text \<open>
  Claim C2, as stated, fails: the caller passed an images extractor of their own, the
  batch is a pair of tensors, and the adapter returns the caller's extractor, not the
  positional one; the slot keeps the caller's extractor.
\<close>

theorem C2_positional_counterexample:
  "is_tuple_or_list (PyTuple [Tensor 0, Tensor 1])
   \<and> length (elements (PyTuple [Tensor 0, Tensor 1])) = 2
   \<and> is_array_like (elements (PyTuple [Tensor 0, Tensor 1]) ! 0)
   \<and> fst (DatasetAdapter_get_images_extractor example_env (PyTuple [Tensor 0, Tensor 1])
            (DatasetAdapter_init (Some (Function 0)) None)) \<noteq> Inr (Path ''[0]'')
   \<and> images_extractor (snd (DatasetAdapter_get_images_extractor example_env (PyTuple [Tensor 0, Tensor 1])
            (DatasetAdapter_init (Some (Function 0)) None))) \<noteq> Some (Path ''[0]'')"
  by (simp add: DatasetAdapter_get_images_extractor_def DataConfig_get_images_extractor_def
      DatasetAdapter_init_def)

text \<open>
  Claim C2, amended: when the task's slot is still empty and the raw batch is a tuple or
  list of two elements whose element 0 (images) resp. 1 (labels) is a tensor, an ndarray
  or a PIL image, the adapter stores the path \<^verbatim>\<open>[0]\<close> resp. \<^verbatim>\<open>[1]\<close> in the slot and
  returns it; the log gains the entry into the resolution and nothing else, so no
  dataset extractor was looked for and nobody was asked.
\<close>

theorem C2_positional_extractor:
  "(images_extractor st = None \<and> is_tuple_or_list data \<and> length (elements data) = 2
      \<and> is_array_like (elements data ! 0) \<longrightarrow>
      DatasetAdapter_get_images_extractor env data st
        = (Inr (Path ''[0]''),
           st\<lparr>images_extractor := Some (Path ''[0]''), log := log st @ [Resolving Images]\<rparr>))
   \<and> (labels_extractor st = None \<and> is_tuple_or_list data \<and> length (elements data) = 2
      \<and> is_array_like (elements data ! 1) \<longrightarrow>
      DatasetAdapter_get_labels_extractor env data st
        = (Inr (Path ''[1]''),
           st\<lparr>labels_extractor := Some (Path ''[1]''), log := log st @ [Resolving Labels]\<rparr>))"
  by (simp add: DatasetAdapter_get_images_extractor_def DataConfig_get_images_extractor_def
      DatasetAdapter_get_labels_extractor_def DataConfig_get_labels_extractor_def)

theorem C2_positional_extractor_witness:
  "images_extractor (DatasetAdapter_init None None) = None
   \<and> labels_extractor (DatasetAdapter_init None None) = None
   \<and> is_tuple_or_list (PyList [NdArray 0, PILImage 1])
   \<and> length (elements (PyList [NdArray 0, PILImage 1])) = 2
   \<and> is_array_like (elements (PyList [NdArray 0, PILImage 1]) ! 0)
   \<and> is_array_like (elements (PyList [NdArray 0, PILImage 1]) ! 1)
   \<and> DatasetAdapter_get_images_extractor example_env (PyList [NdArray 0, PILImage 1])
        (DatasetAdapter_init None None)
       = (Inr (Path ''[0]''),
          \<lparr>images_extractor = Some (Path ''[0]''), labels_extractor = None, log = [Resolving Images]\<rparr>)
   \<and> DatasetAdapter_get_labels_extractor example_env (PyList [NdArray 0, PILImage 1])
        (DatasetAdapter_init None None)
       = (Inr (Path ''[1]''),
          \<lparr>images_extractor = None, labels_extractor = Some (Path ''[1]''), log = [Resolving Labels]\<rparr>)"
  using C2_positional_extractor [of "DatasetAdapter_init None None" "PyList [NdArray 0, PILImage 1]" example_env]
  by (simp add: DatasetAdapter_init_def)

text \<open>
  Claim C3, as stated, fails on the type of the error: for an integer as raw batch,
  with empty slots and no dataset extractor, both functions raise the built-in
  NotImplementedError, not the extraction errors the module defines
  (\<^verbatim>\<open>ImageExtractorError\<close>, \<^verbatim>\<open>LabelsExtractorError\<close>).
\<close>

theorem C3_error_type_counterexample:
  "images_extractor (DatasetAdapter_init None None) = None
   \<and> labels_extractor (DatasetAdapter_init None None) = None
   \<and> \<not> is_supported_container (Other ''int'')
   \<and> find_extractor example_env (Other ''int'') = None
   \<and> fst (DatasetAdapter_get_images_extractor example_env (Other ''int'') (DatasetAdapter_init None None))
       \<noteq> Inl ImageExtractorError
   \<and> fst (DatasetAdapter_get_labels_extractor example_env (Other ''int'') (DatasetAdapter_init None None))
       \<noteq> Inl LabelsExtractorError
   \<and> fst (DatasetAdapter_get_images_extractor example_env (Other ''int'') (DatasetAdapter_init None None))
       = Inl (NotImplementedError (not_supported_message ''images_extractor'' (Other ''int'')))
   \<and> fst (DatasetAdapter_get_labels_extractor example_env (Other ''int'') (DatasetAdapter_init None None))
       = Inl (NotImplementedError (not_supported_message ''labels_extractor'' (Other ''int'')))"
  by (simp add: DatasetAdapter_get_images_extractor_def DatasetAdapter_get_labels_extractor_def
      DatasetAdapter_init_def example_env_def)

text \<open>
  Claim C3, amended: when the task's slot is empty, the raw batch is neither a tuple,
  a list nor a mapping, and no dataset extractor matches it, the function raises
  NotImplementedError. The message gives the type of the batch as \<^verbatim>\<open>type(data)\<close> prints
  it, says that it is not supported, and asks for a custom \<^verbatim>\<open>images_extractor\<close> resp.
  \<^verbatim>\<open>labels_extractor\<close>. The slot stays empty; the log shows the entry into the
  resolution and the one call of \<^verbatim>\<open>find_extractor\<close>, and no question.
\<close>

theorem C3_unsupported_batch_raises:
  "(images_extractor st = None \<and> \<not> is_supported_container data \<and> find_extractor env data = None \<longrightarrow>
      DatasetAdapter_get_images_extractor env data st
        = (Inl (NotImplementedError
                 (''Got object '' @ type_repr data @ '' from Data Iterator which is not supported!''
                  @ [CHR 0x0A] @ ''Please implement a custom `images_extractor` for your dataset. ''
                  @ ''You can find more detail about this in our documentation: https://github.com/Deci-AI/data-gradients'')),
           st\<lparr>log := log st @ [Resolving Images, FindExtractor Images]\<rparr>))
   \<and> (labels_extractor st = None \<and> \<not> is_supported_container data \<and> find_extractor env data = None \<longrightarrow>
      DatasetAdapter_get_labels_extractor env data st
        = (Inl (NotImplementedError
                 (''Got object '' @ type_repr data @ '' from Data Iterator which is not supported!''
                  @ [CHR 0x0A] @ ''Please implement a custom `labels_extractor` for your dataset. ''
                  @ ''You can find more detail about this in our documentation: https://github.com/Deci-AI/data-gradients'')),
           st\<lparr>log := log st @ [Resolving Labels, FindExtractor Labels]\<rparr>))"
proof -
  have nt: "\<not> is_supported_container data \<Longrightarrow> \<not> is_tuple_or_list data"
    by (cases data) auto
  show ?thesis
    using nt
    by (auto simp: DatasetAdapter_get_images_extractor_def DatasetAdapter_get_labels_extractor_def
        not_supported_message_def Let_def)
qed

theorem C3_unsupported_batch_raises_witness:
  "images_extractor (DatasetAdapter_init None None) = None
   \<and> labels_extractor (DatasetAdapter_init None None) = None
   \<and> \<not> is_supported_container (Other ''int'')
   \<and> find_extractor example_env (Other ''int'') = None
   \<and> DatasetAdapter_get_images_extractor example_env (Other ''int'') (DatasetAdapter_init None None)
       = (Inl (NotImplementedError
                 (''Got object <class '' @ [CHR 0x27] @ ''int'' @ [CHR 0x27]
                  @ ''> from Data Iterator which is not supported!''
                  @ [CHR 0x0A] @ ''Please implement a custom `images_extractor` for your dataset. ''
                  @ ''You can find more detail about this in our documentation: https://github.com/Deci-AI/data-gradients'')),
          \<lparr>images_extractor = None, labels_extractor = None,
           log = [Resolving Images, FindExtractor Images]\<rparr>)
   \<and> DatasetAdapter_get_labels_extractor example_env (Other ''int'') (DatasetAdapter_init None None)
       = (Inl (NotImplementedError
                 (''Got object <class '' @ [CHR 0x27] @ ''int'' @ [CHR 0x27]
                  @ ''> from Data Iterator which is not supported!''
                  @ [CHR 0x0A] @ ''Please implement a custom `labels_extractor` for your dataset. ''
                  @ ''You can find more detail about this in our documentation: https://github.com/Deci-AI/data-gradients'')),
          \<lparr>images_extractor = None, labels_extractor = None,
           log = [Resolving Labels, FindExtractor Labels]\<rparr>)"
  using C3_unsupported_batch_raises [of "DatasetAdapter_init None None" "Other ''int''" example_env]
  by (simp add: DatasetAdapter_init_def example_env_def type_repr_def)

subsection \<open>DetectionAnalysisManager\<close>

text \<open>
  Claim C5, evaluated. Both arguments given, one of them 0 or the empty list: the
  constructor does not raise and goes on with the other. Only \<^verbatim>\<open>class_names\<close> given, as
  the empty list: it raises TypeError. Both given with values that count as true, or
  neither given: it raises RuntimeError.
\<close>

theorem C5_constructor_at_falsy_arguments:
  "DetectionAnalysisManager_init (None :: unit option) None (Some 0) (Some [''car'']) None
     = Inr ([''car''], [''car''])
   \<and> DetectionAnalysisManager_init (None :: unit option) None (Some 3) (Some []) None
     = Inr ([''0'', ''1'', ''2''], [''0'', ''1'', ''2''])
   \<and> DetectionAnalysisManager_init (None :: unit option) None None (Some []) None
     = Inl TypeError
   \<and> DetectionAnalysisManager_init (None :: unit option) None (Some 3) (Some [''car'']) None
     = Inl (RuntimeError ''`class_names` and `n_classes` cannot be specified at the same time'')
   \<and> DetectionAnalysisManager_init (None :: unit option) None None None None
     = Inl (RuntimeError ''Either `class_names` or `n_classes` must be specified'')"
proof -
  have u: "[0..<3] = [0, 1, 2]"
    by (simp add: upt_rec)
  have c: "char_of (48 :: nat) = CHR ''0''" "char_of (49 :: nat) = CHR ''1''" "char_of (50 :: nat) = CHR ''2''"
    by code_simp+
  show ?thesis
    by (simp add: DetectionAnalysisManager_init_def py_range_def u c)
qed

subsection \<open>Feature extractors: repeated calls\<close>

lemma get_set_split: "get_split sp (set_split sp' x d) = (if sp = sp' then x else get_split sp d)"
  by (cases sp; cases sp') (simp_all add: get_split_def set_split_def)



lemma process_overwrites_counts:
  "fst (SegmentationGetClassDistribution_process label_to_class (Counts h)) = Inr out \<Longrightarrow>
   snd (SegmentationGetClassDistribution_process label_to_class (Counts h))
     = Normalized (map (\<lambda>count. (count, sum_list h)) h)"
  by (auto simp: SegmentationGetClassDistribution_process_def split: sum.splits)

lemma process_twice_raises:
  assumes "h \<noteq> []"
    and "fst (SegmentationGetClassDistribution_process label_to_class (Counts h)) = Inr out"
  shows "fst (SegmentationGetClassDistribution_process label_to_class
               (snd (SegmentationGetClassDistribution_process label_to_class (Counts h))))
         = Inl AttributeError"
proof -
  obtain c cs where h: "h = c # cs" using assms(1) by (cases h) auto
  show ?thesis
    unfolding process_overwrites_counts [OF assms(2)]
    by (simp add: SegmentationGetClassDistribution_process_def h)
qed


subsection \<open>Feature extractors: the order of updates\<close>

lemma map_fst_bump: "map fst (bump kn h) = map fst h"
  by (cases kn) (induction h, auto)

lemma map_fst_fold_bump: "map fst (fold bump incs h) = map fst h"
  by (induction incs arbitrary: h) (auto simp: map_fst_bump)








lemma keys_apply_batch:
  "map fst (get_split sp (hist (apply_batch data st))) = map fst (get_split sp (hist st))"
  by (simp add: apply_batch_def get_set_split map_fst_fold_bump)

lemma batch_keys_known_apply_batch:
  "batch_keys_known x (apply_batch y st) = batch_keys_known x st"
  by (simp add: batch_keys_known_def keys_apply_batch)

lemma batch_keys_known_fold:
  "batch_keys_known x (fold apply_batch ys st) = batch_keys_known x st"
  by (induction ys arbitrary: st) (simp_all add: batch_keys_known_apply_batch)




























end
